theory Spec2Isabelle
  imports Complex_Main "HOL-Library.Multiset"
begin

section \<open>Numbers and coordinates\<close>

text \<open>
  The script (\<^verbatim>\<open>src/mapper/script.js\<close>) computes with JavaScript numbers. A finite
  number is modelled as a \<^typ>\<open>real\<close>: arithmetic is exact, the rounding of IEEE
  doubles is not modelled. Where a value comes from text typed by the user
  (\<^verbatim>\<open>parseFloat\<close> of a prompt) it may also be \<^verbatim>\<open>NaN\<close>; such values have the type
  \<open>number\<close>. Infinite values are outside the model.
\<close>

datatype number = Num real | NaN

text \<open>\<^verbatim>\<open>a + b\<close>, \<^verbatim>\<open>a * b\<close>, \<^verbatim>\<open>a > b\<close> and \<^verbatim>\<open>a >= b\<close> on numbers: \<^verbatim>\<open>NaN\<close> is
  contagious in arithmetic and every comparison with it is false.\<close>

fun js_add :: "number \<Rightarrow> number \<Rightarrow> number" where
  "js_add (Num a) (Num b) = Num (a + b)"
| "js_add _ _ = NaN"

fun js_mul :: "number \<Rightarrow> number \<Rightarrow> number" where
  "js_mul (Num a) (Num b) = Num (a * b)"
| "js_mul _ _ = NaN"

text \<open>\<^verbatim>\<open>a / c\<close> for a non-zero constant \<open>c\<close>.\<close>

fun js_div_const :: "number \<Rightarrow> real \<Rightarrow> number" where
  "js_div_const (Num a) c = Num (a / c)"
| "js_div_const NaN c = NaN"

fun js_gt :: "number \<Rightarrow> number \<Rightarrow> bool" where
  "js_gt (Num a) (Num b) = (a > b)"
| "js_gt _ _ = False"

fun js_ge :: "number \<Rightarrow> number \<Rightarrow> bool" where
  "js_ge (Num a) (Num b) = (a \<ge> b)"
| "js_ge _ _ = False"

text \<open>
  A coordinate is a JavaScript array of numbers, \<^verbatim>\<open>[lng, lat]\<close> by the script's
  convention: a \<^typ>\<open>real list\<close>. Leaflet's \<^verbatim>\<open>LatLng\<close> and \<^verbatim>\<open>Point\<close> objects are
  records.
\<close>

type_synonym coord = "real list"

record latlng =
  lat :: real
  lng :: real

record point =
  pt_x :: real
  pt_y :: real

text \<open>\<^verbatim>\<open>function toLatLng(coord){ return L.latLng(coord[1], coord[0]); }\<close>
  Reading \<^verbatim>\<open>coord[1]\<close> of a shorter array gives \<^verbatim>\<open>undefined\<close> in JavaScript; every
  caller in this theory checks \<open>wellformed\<close> first and fails otherwise.\<close>

definition toLatLng :: "coord \<Rightarrow> latlng" where
  "toLatLng coord = \<lparr>lat = coord ! 1, lng = coord ! 0\<rparr>"


definition wellformed :: "coord \<Rightarrow> bool" where
  "wellformed c = (length c \<ge> 2)"

text \<open>
  \<^verbatim>\<open>function normalizeCoord(pt){
    if(!pt || pt.length<2) return pt;
    const x = Number(pt[0]), y = Number(pt[1]);
    if(Math.abs(x) <= 90 && Math.abs(y) > 90) return [y, x];
    return [x,y]; }\<close>
  The helper is declared four times with the same body: inside \<^verbatim>\<open>splitMap\<close>, inside
  \<^verbatim>\<open>dropMarker\<close>, and in the \<^verbatim>\<open>circle\<close> and \<^verbatim>\<open>split\<close> branches of
  \<^verbatim>\<open>playAnimation\<close>. One definition stands for the four copies.
\<close>

fun normalizeCoord :: "coord \<Rightarrow> coord" where
  "normalizeCoord (x # y # rest) =
     (if \<bar>x\<bar> \<le> 90 \<and> \<bar>y\<bar> > 90 then [y, x] else [x, y])"
| "normalizeCoord pt = pt"


section \<open>The render host and the geodesy helper\<close>

text \<open>
  Leaflet (\<^verbatim>\<open>L\<close>, \<^verbatim>\<open>map\<close>) and Turf (\<^verbatim>\<open>turf\<close>) are external libraries. What the
  script reads from the map object at one moment is a record \<open>lmap\<close>; what the script
  asks the libraries to compute or to do is a record \<open>env\<close> of functions, a parameter of
  the model. Nothing is assumed about these functions unless a theorem says so.
\<close>

record lmap =
  getCenter :: latlng
  getZoom :: real
  getSize :: point
  latLngToLayerPoint :: "latlng \<Rightarrow> point"
  layerPointToLatLng :: "point \<Rightarrow> latlng"

text \<open>\<^verbatim>\<open>L.latLngBounds(latlngs)\<close> and \<^verbatim>\<open>bounds.pad(r)\<close>, kept symbolic.\<close>

datatype bounds = LatLngBounds "latlng list" | Pad bounds real

text \<open>The library functions the script calls: Turf's \<^verbatim>\<open>destination\<close>, \<^verbatim>\<open>along\<close>
  and \<^verbatim>\<open>length\<close> (in kilometres), the map's view transitions (the map as it is once the
  transition has ended), \<^verbatim>\<open>parseFloat\<close>, and whether \<^verbatim>\<open>localStorage.setItem\<close>
  accepts a write (it throws when the quota is exceeded).\<close>

record env =
  destination :: "coord \<Rightarrow> real \<Rightarrow> real \<Rightarrow> coord"
  along :: "coord list \<Rightarrow> number \<Rightarrow> coord"
  length_km :: "coord list \<Rightarrow> real"
  flyTo :: "lmap \<Rightarrow> latlng \<Rightarrow> real \<Rightarrow> lmap"
  fitBounds :: "lmap \<Rightarrow> bounds \<Rightarrow> lmap"
  setZoom :: "lmap \<Rightarrow> real \<Rightarrow> lmap"
  parseFloat :: "string \<Rightarrow> number"
  accepts :: "(string \<rightharpoonup> string) \<Rightarrow> string \<Rightarrow> string \<Rightarrow> bool"

text \<open>The layers the script creates. A colour is a string, or \<^verbatim>\<open>null\<close> when a
  cancelled \<^verbatim>\<open>prompt\<close> supplied it. Line weights, opacities and dash patterns are
  constants of the script and are left out.\<close>

datatype layer =
    Circle latlng real "string option" bool
  | CircleMarker latlng real "string option"
  | Polyline "latlng list" "string option"
  | PolygonLayer "latlng list" "string option" bool
  | GeoJSON "coord list" "string option"

datatype layer_group = AnimationLayer | KeyframeLayer

text \<open>
  The calls the script makes to the host, in program order. \<open>AddLayer g l i\<close> is
  \<^verbatim>\<open>g.addLayer(l)\<close> for a layer whose \<^verbatim>\<open>_animId\<close> is \<open>i\<close>; \<open>SetTimeout ms cb\<close>
  registers a timer whose callback makes the calls \<open>cb\<close>; \<open>AwaitMoveEnd\<close> is
  \<^verbatim>\<open>await new Promise(resolve => map.once('moveend', resolve))\<close> and \<open>Wait ms\<close> is
  \<^verbatim>\<open>await new Promise(r => setTimeout(r, ms))\<close>.
\<close>

datatype action =
    AddLayer layer_group layer "string option"
  | RemoveLayer layer_group layer
  | ClearLayers layer_group
  | SetTimeout nat "action list"
  | AddLatLng latlng
  | SetLatLng latlng
  | NextFrame nat
  | FitBounds bounds bool
  | FlyTo latlng real
  | SetZoom real
  | AwaitMoveEnd
  | Wait nat
  | MapAddLayer layer_group
  | MapRemoveLayer layer_group
  | ShowEditorControls bool

datatype error = LibraryError | Error string

text \<open>What a JavaScript function hands back to its caller.\<close>

datatype retval =
    Identifier string
  | Null
  | Undefined
  | MarkerObject layer "string option"
  | KeyframeObject string coord real
  | PromiseObject

text \<open>How an awaited promise ends; \<open>Pending\<close> is a promise that has not settled when
  the model's fuel is used up.\<close>

datatype outcome = Resolved | Rejected error | Pending

section \<open>Identifiers\<close>

text \<open>\<^verbatim>\<open>Date.now()\<close> is a natural number of milliseconds, an input of the model;
  a template literal prints it in decimal.\<close>

fun string_of_nat :: "nat \<Rightarrow> string" where
  "string_of_nat n =
     (if n < 10 then [char_of (48 + n)]
      else string_of_nat (n div 10) @ [char_of (48 + n mod 10)])"

declare string_of_nat.simps [simp del]

text \<open>The options object. The script's own callers pass \<^verbatim>\<open>id\<close> and \<^verbatim>\<open>color\<close>
  only; the styling options (\<^verbatim>\<open>outlineColor\<close>, \<^verbatim>\<open>weight\<close>, ...) are absent, and
  the script's defaults for them are constants. \<open>None\<close> is an absent property.\<close>

record opts =
  opt_id :: "string option"
  opt_color :: "string option"

definition no_opts :: opts where
  "no_opts = \<lparr>opt_id = None, opt_color = None\<rparr>"

text \<open>\<^verbatim>\<open>v || d\<close> for a string or absent \<open>v\<close>: the empty string is falsy.\<close>

definition or_default :: "string option \<Rightarrow> string \<Rightarrow> string" where
  "or_default v d = (case v of None \<Rightarrow> d | Some s \<Rightarrow> if s = [] then d else s)"

section \<open>Drawing primitives\<close>

text \<open>
  Each primitive returns what the JavaScript function returns together with the calls it
  makes to the host, or an error when it throws. The libraries throw on a coordinate
  with fewer than two numbers (\<^verbatim>\<open>turf.point\<close> rejects it, Leaflet fails when it
  projects the missing position); the model raises \<open>LibraryError\<close> there.
\<close>

text \<open>
  \<^verbatim>\<open>function drawCircle(centreLngLat, radiusMeters, colorWhenFilled='red', opts={}){
    const id = opts.id || `circle-${Date.now()}`;
    const centre = toLatLng(centreLngLat);
    const circleOutline = L.circle(centre, {radius: radiusMeters, color: opts.outlineColor||'#f1c40f', weight:2, fill:false});
    animationLayer.addLayer(circleOutline);
    setTimeout(()=>{
      const fill = L.circle(centre, {radius: radiusMeters, color: colorWhenFilled, weight:1, fill:true, fillOpacity:0.3});
      animationLayer.removeLayer(circleOutline);
      animationLayer.addLayer(fill);
      fill._animId = id;
    }, 5000);
    return id; }\<close>
\<close>

definition drawCircle ::
  "nat \<Rightarrow> coord \<Rightarrow> real \<Rightarrow> string option \<Rightarrow> opts \<Rightarrow> error + (retval \<times> action list)" where
  "drawCircle now centreLngLat radiusMeters colorWhenFilled opts =
     (let ident = or_default (opt_id opts) (''circle-'' @ string_of_nat now) in
      if \<not> wellformed centreLngLat then Inl LibraryError
      else
        let centre = toLatLng centreLngLat;
            circleOutline = Circle centre radiusMeters (Some ''#f1c40f'') False;
            fill = Circle centre radiusMeters colorWhenFilled True
        in Inr (Identifier ident,
                [AddLayer AnimationLayer circleOutline None,
                 SetTimeout 5000
                   [RemoveLayer AnimationLayer circleOutline,
                    AddLayer AnimationLayer fill (Some ident)]]))"

text \<open>
  \<^verbatim>\<open>function drawPolygon(points, fillColor='#ff0000', opts={}){
    if(!points || points.length<3) return null;
    const latlngs = points.map(p=> toLatLng(p));
    const outline = L.polygon(latlngs, {... fill:false});
    animationLayer.addLayer(outline);
    const id = opts.id || `polygon-${Date.now()}`;
    outline._animId = id;
    setTimeout(()=>{
      animationLayer.removeLayer(outline);
      const filled = L.polygon(latlngs, {... fill:true, fillColor: fillColor, ...});
      filled._animId = id;
      animationLayer.addLayer(filled);
    }, 5000);
    return id; }\<close>
  The outline colour \<^verbatim>\<open>opts.outlineColor||'#333'\<close> is the constant.
\<close>

definition drawPolygon ::
  "nat \<Rightarrow> coord list \<Rightarrow> string option \<Rightarrow> opts \<Rightarrow> error + (retval \<times> action list)" where
  "drawPolygon now points fillColor opts =
     (if length points < 3 then Inr (Null, [])
      else if \<not> list_all wellformed points then Inl LibraryError
      else
        let latlngs = map toLatLng points;
            outline = PolygonLayer latlngs (Some ''#333'') False;
            ident = or_default (opt_id opts) (''polygon-'' @ string_of_nat now);
            filled = PolygonLayer latlngs fillColor True
        in Inr (Identifier ident,
                [AddLayer AnimationLayer outline (Some ident),
                 SetTimeout 5000
                   [RemoveLayer AnimationLayer outline,
                    AddLayer AnimationLayer filled (Some ident)]]))"

text \<open>
  \<^verbatim>\<open>function dropMarker(lnglat, color='#ff0000', opts={}){
    function normalizeCoord(pt){ ... }
    const coord = Array.isArray(lnglat) ? normalizeCoord(lnglat) : null;
    if(!coord) return null;
    const latlng = toLatLng(coord);
    const marker = L.circleMarker(latlng, {radius: opts.radius || 8,
      fillColor: color || (opts.fillColor || '#ff0000'), ...});
    animationLayer.addLayer(marker);
    if(opts.id) marker._animId = opts.id;
    return marker; }\<close>
  The argument is \<open>None\<close> when it is not an array. A \<^verbatim>\<open>null\<close> or empty colour is
  falsy and becomes \<^verbatim>\<open>'#ff0000'\<close>.
\<close>

definition dropMarker ::
  "coord option \<Rightarrow> string option \<Rightarrow> opts \<Rightarrow> error + (retval \<times> action list)" where
  "dropMarker lnglat color opts =
     (case lnglat of
        None \<Rightarrow> Inr (Null, [])
      | Some pt \<Rightarrow>
          let coord = normalizeCoord pt in
          if \<not> wellformed coord then Inl LibraryError
          else
            let latlng = toLatLng coord;
                marker = CircleMarker latlng 8 (Some (or_default color ''#ff0000''));
                animId = (case opt_id opts of
                            None \<Rightarrow> None
                          | Some s \<Rightarrow> if s = [] then None else Some s)
            in Inr (MarkerObject marker animId, [AddLayer AnimationLayer marker animId]))"

text \<open>
  \<^verbatim>\<open>function placeKeyframe(opts={}){
    const center = map.getCenter();
    const zoom = map.getZoom();
    const centerCoords = [center.lng, center.lat];
    const id = opts.id || `keyframe-${Date.now()}`;
    const marker = L.circleMarker(center, {radius: 6, fillColor: opts.color || '#2ecc71', ...});
    marker._animId = id;
    keyframeLayer.addLayer(marker);
    return {id, center: centerCoords, zoom}; }\<close>
\<close>

definition placeKeyframe :: "lmap \<Rightarrow> nat \<Rightarrow> opts \<Rightarrow> retval \<times> action list" where
  "placeKeyframe m now opts =
     (let center = getCenter m;
          zoom = getZoom m;
          centerCoords = [lng center, lat center];
          ident = or_default (opt_id opts) (''keyframe-'' @ string_of_nat now);
          marker = CircleMarker center 6 (Some (or_default (opt_color opts) ''#2ecc71''))
      in (KeyframeObject ident centerCoords zoom,
          [AddLayer KeyframeLayer marker (Some ident)]))"

text \<open>
  \<^verbatim>\<open>splitMap\<close>, first part: the midpoint and the split line, computed in layer
  (pixel) coordinates.
  \<^verbatim>\<open>const midpoint = [(pointA[0] + pointB[0]) / 2, (pointA[1] + pointB[1]) / 2];
  const midLatLng = toLatLng(midpoint);
  const aLatLng = toLatLng(pointA);
  const bLatLng = toLatLng(pointB);
  const aPt = map.latLngToLayerPoint(aLatLng);
  const bPt = map.latLngToLayerPoint(bLatLng);
  const midPt = map.latLngToLayerPoint(midLatLng);
  const vx = bPt.x - aPt.x;
  const vy = bPt.y - aPt.y;
  let px = -vy;
  let py = vx;
  const plen = Math.sqrt(px*px + py*py) || 1;
  px /= plen; py /= plen;
  const size = map.getSize();
  const extend = Math.sqrt(size.x*size.x + size.y*size.y) * 1.5;
  const p1Pixel = L.point(midPt.x + px*extend, midPt.y + py*extend);
  const p2Pixel = L.point(midPt.x - px*extend, midPt.y - py*extend);
  const p1LatLng = map.layerPointToLatLng(p1Pixel);
  const p2LatLng = map.layerPointToLatLng(p2Pixel);
  const p1 = [p1LatLng.lng, p1LatLng.lat];
  const p2 = [p2LatLng.lng, p2LatLng.lat];\<close>
  \<^verbatim>\<open>e || 1\<close> is 1 when \<open>e\<close> is zero. The record holds the constants of the
  function under their names (\<open>extend_px\<close> for \<^verbatim>\<open>extend\<close>); a variable that the script
  assigns twice has one name per value (\<open>px0\<close>, then \<open>px\<close>).
\<close>

record split_line =
  midpoint :: coord
  aPt :: point
  bPt :: point
  midPt :: point
  vx :: real
  vy :: real
  px :: real
  py :: real
  extend_px :: real
  p1Pixel :: point
  p2Pixel :: point
  p1LatLng :: latlng
  p2LatLng :: latlng
  p1 :: coord
  p2 :: coord

definition or_one :: "real \<Rightarrow> real" where
  "or_one e = (if e = 0 then 1 else e)"

definition split_geometry :: "lmap \<Rightarrow> coord \<Rightarrow> coord \<Rightarrow> split_line" where
  "split_geometry m pointA pointB =
     (let midpoint = [(pointA ! 0 + pointB ! 0) / 2, (pointA ! 1 + pointB ! 1) / 2];
          midLatLng = toLatLng midpoint;
          aLatLng = toLatLng pointA;
          bLatLng = toLatLng pointB;
          aPt = latLngToLayerPoint m aLatLng;
          bPt = latLngToLayerPoint m bLatLng;
          midPt = latLngToLayerPoint m midLatLng;
          vx = pt_x bPt - pt_x aPt;
          vy = pt_y bPt - pt_y aPt;
          px0 = - vy;
          py0 = vx;
          plen = or_one (sqrt (px0 * px0 + py0 * py0));
          px = px0 / plen;
          py = py0 / plen;
          size = getSize m;
          extend = sqrt (pt_x size * pt_x size + pt_y size * pt_y size) * 1.5;
          p1Pixel = \<lparr>pt_x = pt_x midPt + px * extend, pt_y = pt_y midPt + py * extend\<rparr>;
          p2Pixel = \<lparr>pt_x = pt_x midPt - px * extend, pt_y = pt_y midPt - py * extend\<rparr>;
          p1LatLng = layerPointToLatLng m p1Pixel;
          p2LatLng = layerPointToLatLng m p2Pixel
      in \<lparr>midpoint = midpoint, aPt = aPt, bPt = bPt, midPt = midPt, vx = vx, vy = vy,
          px = px, py = py, extend_px = extend, p1Pixel = p1Pixel, p2Pixel = p2Pixel,
          p1LatLng = p1LatLng, p2LatLng = p2LatLng,
          p1 = [lng p1LatLng, lat p1LatLng], p2 = [lng p2LatLng, lat p2LatLng]\<rparr>)"

text \<open>
  \<^verbatim>\<open>splitMap\<close>, the timer callback: the two half-plane polygons.
  \<^verbatim>\<open>const bigPx = extend * 3;
  const dx = p2Pixel.x - p1Pixel.x;
  const dy = p2Pixel.y - p1Pixel.y;
  let nx = -dy;
  let ny = dx;
  const nlen = Math.sqrt(nx*nx + ny*ny) || 1;
  nx /= nlen; ny /= nlen;
  const toApx = aPt.x - p1Pixel.x;
  const toApy = aPt.y - p1Pixel.y;
  const dot = nx*toApx + ny*toApy;
  if(dot < 0){ nx = -nx; ny = -ny; }
  const p1_far = L.point(p1Pixel.x + nx*bigPx, p1Pixel.y + ny*bigPx);
  const p2_far = L.point(p2Pixel.x + nx*bigPx, p2Pixel.y + ny*bigPx);
  ... const ext1 = [p1_far_latlng.lng, p1_far_latlng.lat]; (and ext2)
  const polygonAcoords = [p1, p2, ext2, ext1, p1];
  const p1_far_b = L.point(p1Pixel.x - nx*bigPx, p1Pixel.y - ny*bigPx);
  const p2_far_b = L.point(p2Pixel.x - nx*bigPx, p2Pixel.y - ny*bigPx);
  ... const polygonBcoords_final = [p1, p2, ext2b, ext1b, p1];\<close>
  The callback runs five seconds after the first part; the model uses the same map view
  for both, as in playback, where nothing moves the map in between. The values
  \<^verbatim>\<open>bigPolyCoordsA\<close>, \<^verbatim>\<open>polyA\<close> and \<^verbatim>\<open>rectAround\<close> of the callback are never used
  and are left out.
\<close>

record shading =
  bigPx :: real
  nx :: real
  ny :: real
  p1_far :: point
  p2_far :: point
  p1_far_b :: point
  p2_far_b :: point
  polygonAcoords :: "coord list"
  polygonBcoords_final :: "coord list"

definition shade_geometry :: "lmap \<Rightarrow> split_line \<Rightarrow> shading" where
  "shade_geometry m g =
     (let bigPx = extend_px g * 3;
          dx = pt_x (p2Pixel g) - pt_x (p1Pixel g);
          dy = pt_y (p2Pixel g) - pt_y (p1Pixel g);
          nx0 = - dy;
          ny0 = dx;
          nlen = or_one (sqrt (nx0 * nx0 + ny0 * ny0));
          nx1 = nx0 / nlen;
          ny1 = ny0 / nlen;
          toApx = pt_x (aPt g) - pt_x (p1Pixel g);
          toApy = pt_y (aPt g) - pt_y (p1Pixel g);
          dot = nx1 * toApx + ny1 * toApy;
          nx = (if dot < 0 then - nx1 else nx1);
          ny = (if dot < 0 then - ny1 else ny1);
          p1_far = \<lparr>pt_x = pt_x (p1Pixel g) + nx * bigPx, pt_y = pt_y (p1Pixel g) + ny * bigPx\<rparr>;
          p2_far = \<lparr>pt_x = pt_x (p2Pixel g) + nx * bigPx, pt_y = pt_y (p2Pixel g) + ny * bigPx\<rparr>;
          p1_far_latlng = layerPointToLatLng m p1_far;
          p2_far_latlng = layerPointToLatLng m p2_far;
          ext1 = [lng p1_far_latlng, lat p1_far_latlng];
          ext2 = [lng p2_far_latlng, lat p2_far_latlng];
          p1_far_b = \<lparr>pt_x = pt_x (p1Pixel g) - nx * bigPx, pt_y = pt_y (p1Pixel g) - ny * bigPx\<rparr>;
          p2_far_b = \<lparr>pt_x = pt_x (p2Pixel g) - nx * bigPx, pt_y = pt_y (p2Pixel g) - ny * bigPx\<rparr>;
          p1_far_b_latlng = layerPointToLatLng m p1_far_b;
          p2_far_b_latlng = layerPointToLatLng m p2_far_b;
          ext1b = [lng p1_far_b_latlng, lat p1_far_b_latlng];
          ext2b = [lng p2_far_b_latlng, lat p2_far_b_latlng]
      in \<lparr>bigPx = bigPx, nx = nx, ny = ny, p1_far = p1_far, p2_far = p2_far,
          p1_far_b = p1_far_b, p2_far_b = p2_far_b,
          polygonAcoords = [p1 g, p2 g, ext2, ext1, p1 g],
          polygonBcoords_final = [p1 g, p2 g, ext2b, ext1b, p1 g]\<rparr>)"

text \<open>
  \<^verbatim>\<open>function splitMap(pointA, pointB, sideToShade='A', opts={}){
    pointA = normalizeCoord(pointA);
    pointB = normalizeCoord(pointB);
    const a = turf.point(pointA); const b = turf.point(pointB); ...
    animationLayer.addLayer(midMarker); ...
    animationLayer.addLayer(splitLine);
    animationLayer.addLayer(ma);
    animationLayer.addLayer(mb);
    setTimeout(()=>{ ...
      const shade = sideToShade === 'A' ? polyAGeo : polyBGeo;
      const colour = opts.color || (sideToShade==='A' ? '#e74c3c' : '#2ecc71');
      const leafletPoly = L.geoJSON(shade, {style:{color:colour, ...}});
      animationLayer.addLayer(leafletPoly);
      if(midMarker) animationLayer.removeLayer(midMarker);
    }, 5000);
  }\<close>
  The function has no \<^verbatim>\<open>return\<close> statement. \<open>sideToShade\<close> is \<open>None\<close> for \<^verbatim>\<open>null\<close>.
\<close>

definition splitMap ::
  "lmap \<Rightarrow> coord \<Rightarrow> coord \<Rightarrow> string option \<Rightarrow> opts \<Rightarrow> error + (retval \<times> action list)" where
  "splitMap m pointA0 pointB0 sideToShade opts =
     (let pointA = normalizeCoord pointA0;
          pointB = normalizeCoord pointB0
      in if \<not> wellformed pointA \<or> \<not> wellformed pointB then Inl LibraryError
         else
           let g = split_geometry m pointA pointB;
               midMarker = CircleMarker (toLatLng (midpoint g)) 7 (Some ''#f1c40f'');
               splitLine = Polyline [p1LatLng g, p2LatLng g] (Some ''#2c3e50'');
               ma = CircleMarker (toLatLng pointA) 6 (Some ''#e74c3c'');
               mb = CircleMarker (toLatLng pointB) 6 (Some ''#3498db'');
               s = shade_geometry m g;
               shade = (if sideToShade = Some ''A'' then polygonAcoords s
                        else polygonBcoords_final s);
               colour = or_default (opt_color opts)
                          (if sideToShade = Some ''A'' then ''#e74c3c'' else ''#2ecc71'');
               leafletPoly = GeoJSON shade (Some colour)
           in Inr (Undefined,
                   [AddLayer AnimationLayer midMarker None,
                    AddLayer AnimationLayer splitLine None,
                    AddLayer AnimationLayer ma None,
                    AddLayer AnimationLayer mb None,
                    SetTimeout 5000
                      [AddLayer AnimationLayer leafletPoly None,
                       RemoveLayer AnimationLayer midMarker]]))"

text \<open>
  \<^verbatim>\<open>function interpolateAlong(line, distanceMeters){
    return turf.along(line, distanceMeters/1000, {units:'kilometers'}).geometry.coordinates; }\<close>
\<close>

definition interpolateAlong :: "env \<Rightarrow> coord list \<Rightarrow> number \<Rightarrow> coord" where
  "interpolateAlong e line distanceMeters = along e line (js_div_const distanceMeters 1000)"

text \<open>
  The stepping loop of \<^verbatim>\<open>drawRoute\<close>:
  \<^verbatim>\<open>function step(){
    traveled += stepMeters;
    if(traveled > totalMeters) traveled = totalMeters;
    const coord = interpolateAlong(line, traveled);
    drawn.addLatLng(toLatLng(coord));
    marker.setLatLng(toLatLng(coord));
    if(traveled>=totalMeters){ resolve(); }
    else { requestAnimationFrame(()=> setTimeout(step, stepMs)); } }\<close>
  The loop may run forever, so it takes fuel: the number of calls of \<^verbatim>\<open>step\<close> it may
  make. With no fuel left the promise is still \<open>Pending\<close>.
\<close>

fun step ::
  "nat \<Rightarrow> (number \<Rightarrow> coord) \<Rightarrow> nat \<Rightarrow> real \<Rightarrow> number \<Rightarrow> number \<Rightarrow> action list \<times> outcome" where
  "step 0 interp stepMs totalMeters stepMeters traveled = ([], Pending)"
| "step (Suc fuel) interp stepMs totalMeters stepMeters traveled =
     (let traveled1 = js_add traveled stepMeters;
          traveled2 = (if js_gt traveled1 (Num totalMeters) then Num totalMeters else traveled1);
          coord = interp traveled2;
          calls = [AddLatLng (toLatLng coord), SetLatLng (toLatLng coord)]
      in if js_ge traveled2 (Num totalMeters) then (calls, Resolved)
         else
           let (later, out) = step fuel interp stepMs totalMeters stepMeters traveled2
           in (calls @ [NextFrame stepMs] @ later, out))"

text \<open>
  \<^verbatim>\<open>function drawRoute(points, speedMetersPerSecond=120, opts={}){
    return new Promise((resolve, reject)=>{
      if(!points || points.length<2) return reject(new Error('Need at least 2 points'));
      const line = turf.lineString(points);
      const totalLengthKm = turf.length(line, {units:'kilometers'});
      const totalMeters = totalLengthKm*1000;
      const drawn = L.polyline([], {color:opts.color||'#f1c40f', ...});
      const marker = L.circleMarker(toLatLng(points[0]), {radius:6,fillColor:opts.color||'#f1c40f',...});
      animationLayer.addLayer(drawn);
      animationLayer.addLayer(marker);
      let traveled = 0;
      const stepMs = 40;
      const stepMeters = speedMetersPerSecond*(stepMs/1000);
      function step(){ ... }
      step(); }); }\<close>
  The speed is \<open>None\<close> when the argument is \<^verbatim>\<open>undefined\<close>. The result is the value
  returned (a promise), the calls made and how the promise ends.
\<close>

definition drawRoute ::
  "env \<Rightarrow> nat \<Rightarrow> coord list \<Rightarrow> number option \<Rightarrow> opts \<Rightarrow> retval \<times> action list \<times> outcome" where
  "drawRoute e fuel points speed opts =
     (let speedMetersPerSecond = (case speed of None \<Rightarrow> Num 120 | Some v \<Rightarrow> v) in
      if length points < 2 then (PromiseObject, [], Rejected (Error ''Need at least 2 points''))
      else if \<not> list_all wellformed points then (PromiseObject, [], Rejected LibraryError)
      else
        let totalLengthKm = length_km e points;
            totalMeters = totalLengthKm * 1000;
            colour = or_default (opt_color opts) ''#f1c40f'';
            drawn = Polyline [] (Some colour);
            marker = CircleMarker (toLatLng (points ! 0)) 6 (Some colour);
            stepMs = 40;
            stepMeters = js_mul speedMetersPerSecond (Num (real stepMs / 1000));
            (calls, out) = step fuel (interpolateAlong e points) stepMs totalMeters stepMeters (Num 0)
        in (PromiseObject,
            [AddLayer AnimationLayer drawn None, AddLayer AnimationLayer marker None] @ calls,
            out))"

section \<open>The animation registry\<close>

text \<open>
  An entry of \<^verbatim>\<open>ui.animations\<close> is an object \<^verbatim>\<open>{type, id, params}\<close>; the six types
  the toolbar handlers create are the constructors, each with its identifier first and
  then its parameters in the order of the object literal in the handler:
  \<^verbatim>\<open>{type:'circle', id, params:{centre, radius, color}}\<close>,
  \<^verbatim>\<open>{type:'split', id, params:{a, b, side, color}}\<close>,
  \<^verbatim>\<open>{type:'route', id, params:{points, speed, color}}\<close>,
  \<^verbatim>\<open>{type:'keyframe', id, params:{center, zoom}}\<close>,
  \<^verbatim>\<open>{type:'polygon', id, params:{points, color}}\<close>,
  \<^verbatim>\<open>{type:'marker', id, params:{point, color}}\<close>.
  A string from \<^verbatim>\<open>prompt\<close> is \<open>None\<close> when the prompt was cancelled (\<^verbatim>\<open>null\<close>).
\<close>

datatype animation =
    CircleAnim string coord number "string option"
  | SplitAnim string coord coord "string option" "string option"
  | RouteAnim string "coord list" number "string option"
  | KeyframeAnim string coord "real option"
  | PolygonAnim string "coord list" "string option"
  | MarkerAnim string coord "string option"

fun anim_type :: "animation \<Rightarrow> string" where
  "anim_type (CircleAnim i c r col) = ''circle''"
| "anim_type (SplitAnim i a b side col) = ''split''"
| "anim_type (RouteAnim i ps sp col) = ''route''"
| "anim_type (KeyframeAnim i c z) = ''keyframe''"
| "anim_type (PolygonAnim i ps col) = ''polygon''"
| "anim_type (MarkerAnim i p col) = ''marker''"

fun anim_id :: "animation \<Rightarrow> string" where
  "anim_id (CircleAnim i c r col) = i"
| "anim_id (SplitAnim i a b side col) = i"
| "anim_id (RouteAnim i ps sp col) = i"
| "anim_id (KeyframeAnim i c z) = i"
| "anim_id (PolygonAnim i ps col) = i"
| "anim_id (MarkerAnim i p col) = i"

text \<open>\<^verbatim>\<open>JSON.parse\<close> throws, or returns something that is not an array, or an array.\<close>

datatype parsed = SyntaxError | NotArray | IsArray "animation list"

text \<open>\<^verbatim>\<open>JSON.stringify\<close> and \<^verbatim>\<open>JSON.parse\<close> are built into the browser: parameters.\<close>

record json =
  stringify :: "animation list \<Rightarrow> string"
  parse :: "string \<Rightarrow> parsed"

text \<open>The state the handlers share: \<^verbatim>\<open>ui.mode\<close>, \<^verbatim>\<open>ui.animations\<close>, the labels of
  the entries of the sidebar list \<^verbatim>\<open>animList\<close>, \<^verbatim>\<open>localStorage\<close>, the map, and
  whether \<^verbatim>\<open>map.hasLayer(keyframeLayer)\<close>.\<close>

record world =
  ui_mode :: string
  animations :: "animation list"
  animList :: "string list"
  localStorage :: "string \<rightharpoonup> string"
  the_map :: lmap
  hasKeyframeLayer :: bool

definition STORAGE_KEY :: string where
  "STORAGE_KEY = ''map_animations_v1''"

text \<open>
  \<^verbatim>\<open>function saveAnimationsToStorage(){
    try{ localStorage.setItem(STORAGE_KEY, JSON.stringify(ui.animations)); }
    catch(e){ console.warn('Could not save', e); } }\<close>
\<close>

definition saveAnimationsToStorage :: "env \<Rightarrow> json \<Rightarrow> world \<Rightarrow> world" where
  "saveAnimationsToStorage e j w =
     (let text = stringify j (animations w) in
      if accepts e (localStorage w) STORAGE_KEY text
      then w\<lparr>localStorage := (localStorage w)(STORAGE_KEY \<mapsto> text)\<rparr>
      else w)"

text \<open>
  \<^verbatim>\<open>function addAnimationEntry(anim){
    const li = document.createElement('li'); ...
    label.textContent = `${anim.type} ${anim.id}`; ...
    animList.appendChild(li);
    try{ saveAnimationsToStorage(); }catch(e){} }\<close>
  The buttons of the entry are event wiring and are not part of the state.
\<close>

definition addAnimationEntry :: "env \<Rightarrow> json \<Rightarrow> animation \<Rightarrow> world \<Rightarrow> world" where
  "addAnimationEntry e j anim w =
     saveAnimationsToStorage e j
       (w\<lparr>animList := animList w @ [anim_type anim @ '' '' @ anim_id anim]\<rparr>)"

text \<open>
  \<^verbatim>\<open>function refreshAnimList(){
    animList.innerHTML = '';
    for(const a of ui.animations) addAnimationEntry(a);
    saveAnimationsToStorage(); }\<close>
\<close>

definition refreshAnimList :: "env \<Rightarrow> json \<Rightarrow> world \<Rightarrow> world" where
  "refreshAnimList e j w =
     saveAnimationsToStorage e j
       (fold (addAnimationEntry e j) (animations w) (w\<lparr>animList := []\<rparr>))"

text \<open>\<^verbatim>\<open>Array.prototype.findIndex\<close>: the first index whose element satisfies the test,
  or -1.\<close>

fun findIndex :: "('a \<Rightarrow> bool) \<Rightarrow> 'a list \<Rightarrow> int" where
  "findIndex P [] = - 1"
| "findIndex P (x # xs) =
     (if P x then 0 else (let r = findIndex P xs in if r < 0 then - 1 else r + 1))"

text \<open>
  \<^verbatim>\<open>function moveAnimationById(id, direction){
    const idx = ui.animations.findIndex(a=>a.id === id);
    if(idx < 0) return;
    const newIdx = idx + direction;
    if(newIdx < 0 || newIdx >= ui.animations.length) return;
    const tmp = ui.animations[idx];
    ui.animations[idx] = ui.animations[newIdx];
    ui.animations[newIdx] = tmp;
    refreshAnimList(); }\<close>
  The direction is an integer (the handlers pass -1 and +1).
\<close>

definition moveAnimationById :: "env \<Rightarrow> json \<Rightarrow> string \<Rightarrow> int \<Rightarrow> world \<Rightarrow> world" where
  "moveAnimationById e j ident direction w =
     (let idx = findIndex (\<lambda>a. anim_id a = ident) (animations w) in
      if idx < 0 then w
      else
        let newIdx = idx + direction in
        if newIdx < 0 \<or> newIdx \<ge> int (length (animations w)) then w
        else
          let tmp = animations w ! nat idx;
              arr1 = (animations w)[nat idx := animations w ! nat newIdx];
              arr2 = arr1[nat newIdx := tmp]
          in refreshAnimList e j (w\<lparr>animations := arr2\<rparr>))"

text \<open>
  \<^verbatim>\<open>function loadAnimationsFromStorage(){
    try{
      const raw = localStorage.getItem(STORAGE_KEY);
      if(!raw) return;
      const arr = JSON.parse(raw);
      if(Array.isArray(arr)){ ui.animations = arr; refreshAnimList(); }
    }catch(e){ console.warn('Could not load animations', e); } }\<close>
\<close>

definition loadAnimationsFromStorage :: "env \<Rightarrow> json \<Rightarrow> world \<Rightarrow> world" where
  "loadAnimationsFromStorage e j w =
     (case localStorage w STORAGE_KEY of
        None \<Rightarrow> w
      | Some raw \<Rightarrow>
          if raw = [] then w
          else (case parse j raw of
                  IsArray arr \<Rightarrow> refreshAnimList e j (w\<lparr>animations := arr\<rparr>)
                | NotArray \<Rightarrow> w
                | SyntaxError \<Rightarrow> w))"

section \<open>Capturing points and the toolbar handlers\<close>

text \<open>
  \<^verbatim>\<open>capturePoints(promptText, options={multiple:false})\<close> returns a promise and
  registers three listeners; what happens next is decided by the events the user
  produces while they are registered.
  \<^verbatim>\<open>function onMapClick(e){
    const lnglat = [e.latlng.lng, e.latlng.lat];
    points.push(lnglat); ...
    if(!options.multiple){ finish(); } }
  function finish(){ map.off('click', onMapClick); ...
    overlayCancel.removeEventListener('click', cancel);
    overlayStop.removeEventListener('click', stopCapturing);
    resolve(points); }
  function cancel(){ map.off('click', onMapClick); ...
    reject(new Error('cancelled')); }
  function stopCapturing(){ finish(); }\<close>
  The result is \<open>None\<close> when the events end with the promise unsettled, \<open>Inl\<close> the
  error when it is rejected and \<open>Inr\<close> the points when it is resolved. \<open>finish\<close> and
  \<open>cancel\<close> remove the listeners, so later events are not seen.
\<close>

datatype ui_event = MapClick latlng | CancelClick | StopClick

fun capturePoints :: "bool \<Rightarrow> ui_event list \<Rightarrow> coord list \<Rightarrow> (error + coord list) option" where
  "capturePoints multiple [] points = None"
| "capturePoints multiple (MapClick l # evs) points =
     (let lnglat = [lng l, lat l];
          points1 = points @ [lnglat]
      in if \<not> multiple then Some (Inr points1)
         else capturePoints multiple evs points1)"
| "capturePoints multiple (CancelClick # evs) points = Some (Inl (Error ''cancelled''))"
| "capturePoints multiple (StopClick # evs) points = Some (Inr points)"

text \<open>\<^verbatim>\<open>ui.animations.push(x); addAnimationEntry(ui.animations[ui.animations.length-1]);\<close>\<close>

definition push_entry :: "env \<Rightarrow> json \<Rightarrow> animation \<Rightarrow> world \<Rightarrow> world" where
  "push_entry e j anim w =
     (let w1 = w\<lparr>animations := animations w @ [anim]\<rparr>
      in addAnimationEntry e j (last (animations w1)) w1)"

text \<open>\<^verbatim>\<open>parseFloat(str || d)\<close> for a prompt answer \<open>str\<close> and a numeric default \<open>d\<close>.\<close>

definition parseFloat_or :: "env \<Rightarrow> string option \<Rightarrow> real \<Rightarrow> number" where
  "parseFloat_or e str d =
     (case str of None \<Rightarrow> Num d | Some s \<Rightarrow> if s = [] then Num d else parseFloat e s)"

text \<open>
  The handlers. Each takes the events that follow the click on its button, the answers
  of its prompts and the reading of \<^verbatim>\<open>Date.now()\<close>, and returns the new state with
  the calls made to the host. A handler whose capture never settles does nothing more.
  \<^verbatim>\<open>document.getElementById('btnCircle').addEventListener('click', async ()=>{
    try{
      const pts = await capturePoints('Click the centre for the circle (single click)');
      if(!pts || pts.length===0) return;
      const radiusStr = prompt('Radius in meters', '500');
      const color = prompt('fill color after 5s (green, red, gold or purple)', 'gold');
      const id = `anim-${Date.now()}`;
      ui.animations.push({type:'circle', id, params:{centre:pts[0], radius:parseFloat(radiusStr||500), color}});
      addAnimationEntry(ui.animations[ui.animations.length-1]);
    }catch(e){} });\<close>
\<close>

definition btnCircle ::
  "env \<Rightarrow> json \<Rightarrow> ui_event list \<Rightarrow> string option \<Rightarrow> string option \<Rightarrow> nat \<Rightarrow> world
     \<Rightarrow> world \<times> action list" where
  "btnCircle e j evs radiusStr color now w =
     (case capturePoints False evs [] of
        None \<Rightarrow> (w, [])
      | Some (Inl err) \<Rightarrow> (w, [])
      | Some (Inr pts) \<Rightarrow>
          if length pts = 0 then (w, [])
          else
            let ident = ''anim-'' @ string_of_nat now
            in (push_entry e j
                  (CircleAnim ident (pts ! 0) (parseFloat_or e radiusStr 500) color) w, []))"

text \<open>
  \<^verbatim>\<open>btnSplit: try{
      const pts = await capturePoints('Click point A then point B ...', {multiple:true});
      if(!pts || pts.length<2) return;
      const side = prompt('Which side to shade after 5s? (A or B)', 'A');
      const color = prompt('Shade colour (name or hex)', side==='A' ? '#e74c3c' : '#2ecc71');
      const id = `anim-${Date.now()}`;
      ui.animations.push({type:'split', id, params:{a:pts[0], b:pts[1], side, color}});
      addAnimationEntry(ui.animations[ui.animations.length-1]);
    }catch(e){}\<close>
\<close>

definition btnSplit ::
  "env \<Rightarrow> json \<Rightarrow> ui_event list \<Rightarrow> string option \<Rightarrow> string option \<Rightarrow> nat \<Rightarrow> world
     \<Rightarrow> world \<times> action list" where
  "btnSplit e j evs side color now w =
     (case capturePoints True evs [] of
        None \<Rightarrow> (w, [])
      | Some (Inl err) \<Rightarrow> (w, [])
      | Some (Inr pts) \<Rightarrow>
          if length pts < 2 then (w, [])
          else
            let ident = ''anim-'' @ string_of_nat now
            in (push_entry e j (SplitAnim ident (pts ! 0) (pts ! 1) side color) w, []))"

text \<open>
  \<^verbatim>\<open>btnRoute: try{
      const pts = await capturePoints('Click route waypoints; press Stop when finished', {multiple:true});
      if(!pts || pts.length<2) return;
      const speed = prompt('Speed meters/second (approx)', '500');
      const color = prompt('route color (yellow or purple)', 'yellow');
      const id = `anim-${Date.now()}`;
      ui.animations.push({type:'route', id, params:{points:pts, speed:parseFloat(speed||120), color}});
      addAnimationEntry(ui.animations[ui.animations.length-1]);
    }catch(e){}\<close>
\<close>

definition btnRoute ::
  "env \<Rightarrow> json \<Rightarrow> ui_event list \<Rightarrow> string option \<Rightarrow> string option \<Rightarrow> nat \<Rightarrow> world
     \<Rightarrow> world \<times> action list" where
  "btnRoute e j evs speed color now w =
     (case capturePoints True evs [] of
        None \<Rightarrow> (w, [])
      | Some (Inl err) \<Rightarrow> (w, [])
      | Some (Inr pts) \<Rightarrow>
          if length pts < 2 then (w, [])
          else
            let ident = ''anim-'' @ string_of_nat now
            in (push_entry e j (RouteAnim ident pts (parseFloat_or e speed 120) color) w, []))"

text \<open>
  \<^verbatim>\<open>btnPolygon: try{
      const pts = await capturePoints('Click polygon vertices; press Stop when finished', {multiple:true});
      if(!pts || pts.length<3){ alert('Need at least 3 points to make a polygon'); return; }
      const color = prompt('Polygon fill colour (name or hex)', 'purple');
      const id = `polygon-${Date.now()}`;
      ui.animations.push({type:'polygon', id, params:{points: pts, color}});
      addAnimationEntry(ui.animations[ui.animations.length-1]);
    }catch(e){ /* cancelled */ }\<close>
\<close>

definition btnPolygon ::
  "env \<Rightarrow> json \<Rightarrow> ui_event list \<Rightarrow> string option \<Rightarrow> nat \<Rightarrow> world \<Rightarrow> world \<times> action list" where
  "btnPolygon e j evs color now w =
     (case capturePoints True evs [] of
        None \<Rightarrow> (w, [])
      | Some (Inl err) \<Rightarrow> (w, [])
      | Some (Inr pts) \<Rightarrow>
          if length pts < 3 then (w, [])
          else
            let ident = ''polygon-'' @ string_of_nat now
            in (push_entry e j (PolygonAnim ident pts color) w, []))"

text \<open>
  \<^verbatim>\<open>btnDropMarker: try{
      const pts = await capturePoints('Click the map to place a marker (single click)');
      if(!pts || pts.length===0) return;
      const color = document.getElementById('markerColor') ? document.getElementById('markerColor').value : '#ff0000';
      const id = `marker-${Date.now()}`;
      dropMarker(pts[0], color, {id});
      ui.animations.push({type:'marker', id, params:{point:pts[0], color}});
      addAnimationEntry(ui.animations[ui.animations.length-1]);
    }catch(e){}\<close>
  \<open>markerColor\<close> is the value of the colour input, \<open>None\<close> when the page has none.
\<close>

definition btnDropMarker ::
  "env \<Rightarrow> json \<Rightarrow> ui_event list \<Rightarrow> string option \<Rightarrow> nat \<Rightarrow> world \<Rightarrow> world \<times> action list" where
  "btnDropMarker e j evs markerColor now w =
     (case capturePoints False evs [] of
        None \<Rightarrow> (w, [])
      | Some (Inl err) \<Rightarrow> (w, [])
      | Some (Inr pts) \<Rightarrow>
          if length pts = 0 then (w, [])
          else
            let color = (case markerColor of None \<Rightarrow> ''#ff0000'' | Some v \<Rightarrow> v);
                ident = ''marker-'' @ string_of_nat now
            in (case dropMarker (Some (pts ! 0)) (Some color)
                       \<lparr>opt_id = Some ident, opt_color = None\<rparr> of
                  Inl err \<Rightarrow> (w, [])
                | Inr (r, calls) \<Rightarrow>
                    (push_entry e j (MarkerAnim ident (pts ! 0) (Some color)) w, calls)))"

text \<open>
  \<^verbatim>\<open>btnKeyframe: try{
      const k = placeKeyframe();
      ui.animations.push({type:'keyframe', id: k.id, params:{center: k.center, zoom: k.zoom}});
      addAnimationEntry(ui.animations[ui.animations.length-1]);
    }catch(e){ console.warn('Keyframe add cancelled', e); }\<close>
\<close>

definition btnKeyframe :: "env \<Rightarrow> json \<Rightarrow> nat \<Rightarrow> world \<Rightarrow> world \<times> action list" where
  "btnKeyframe e j now w =
     (case placeKeyframe (the_map w) now no_opts of
        (KeyframeObject ident center zoom, calls) \<Rightarrow>
          (push_entry e j (KeyframeAnim ident center (Some zoom)) w, calls)
      | (r, calls) \<Rightarrow> (w, calls))"

section \<open>Playback\<close>

text \<open>
  \<^verbatim>\<open>async function playAnimation(a)\<close>. The result is the calls made in program order,
  the map once the function is done, and how its promise ends. \<open>fuel\<close> bounds the steps
  of an awaited \<^verbatim>\<open>drawRoute\<close>; \<open>now\<close> is the reading of \<^verbatim>\<open>Date.now()\<close>.
  Each branch of the function is a definition of its own. A coordinate with fewer than
  two numbers makes one of the libraries throw somewhere in the branch; the model rejects
  the promise there and does not say which calls came before the failure.

  \<^verbatim>\<open>if(a.type==='circle'){
    const centre = normalizeCoord(a.params.centre);
    const radiusMeters = Number(a.params.radius) || 500;
    const bufferMeters = Math.max(200, Math.round(radiusMeters * 0.12));
    const extentKm = (radiusMeters + bufferMeters) / 1000;
    const pt = turf.point(centre);
    const north = turf.destination(pt, extentKm, 0, ...).geometry.coordinates; (east 90, south 180, west 270)
    const lons = [north[0], east[0], south[0], west[0]];
    const lats = [north[1], east[1], south[1], west[1]];
    const minLon = Math.min(...lons), maxLon = Math.max(...lons);
    const minLat = Math.min(...lats), maxLat = Math.max(...lats);
    const bounds = L.latLngBounds([L.latLng(minLat, minLon), L.latLng(maxLat, maxLon)]);
    map.fitBounds(bounds, {duration: FLY_DURATION, padding: [40,40]});
    await new Promise(resolve => map.once('moveend', resolve));
    drawCircle(centre, radiusMeters, a.params.color, {id: a.id});
    await new Promise(r=>setTimeout(r,6000)); }\<close>
  \<^verbatim>\<open>Math.round(v)\<close> is the floor of \<open>v + 1/2\<close>; \<^verbatim>\<open>n || 500\<close> is 500 when \<open>n\<close> is 0 or
  \<^verbatim>\<open>NaN\<close>.
\<close>

definition number_or :: "number \<Rightarrow> real \<Rightarrow> real" where
  "number_or n d = (case n of Num v \<Rightarrow> if v = 0 then d else v | NaN \<Rightarrow> d)"

definition Math_round :: "real \<Rightarrow> real" where
  "Math_round v = of_int \<lfloor>v + 1 / 2\<rfloor>"

definition play_circle ::
  "env \<Rightarrow> nat \<Rightarrow> lmap \<Rightarrow> string \<Rightarrow> coord \<Rightarrow> number \<Rightarrow> string option
     \<Rightarrow> action list \<times> lmap \<times> outcome" where
  "play_circle e now m ident centre0 radius color =
     (let centre = normalizeCoord centre0;
          radiusMeters = number_or radius 500;
          bufferMeters = max 200 (Math_round (radiusMeters * 0.12));
          extentKm = (radiusMeters + bufferMeters) / 1000
      in if \<not> wellformed centre then ([], m, Rejected LibraryError)
         else
           let north = destination e centre extentKm 0;
               east = destination e centre extentKm 90;
               south = destination e centre extentKm 180;
               west = destination e centre extentKm 270;
               lons = [north ! 0, east ! 0, south ! 0, west ! 0];
               lats = [north ! 1, east ! 1, south ! 1, west ! 1];
               minLon = Min (set lons); maxLon = Max (set lons);
               minLat = Min (set lats); maxLat = Max (set lats);
               bnds = LatLngBounds [\<lparr>lat = minLat, lng = minLon\<rparr>, \<lparr>lat = maxLat, lng = maxLon\<rparr>];
               m1 = fitBounds e m bnds;
               moved = [FitBounds bnds True, AwaitMoveEnd]
           in (case drawCircle now centre radiusMeters color \<lparr>opt_id = Some ident, opt_color = None\<rparr> of
                 Inl err \<Rightarrow> (moved, m1, Rejected err)
               | Inr (r, calls) \<Rightarrow> (moved @ calls @ [Wait 6000], m1, Resolved)))"

text \<open>
  \<^verbatim>\<open>else if(a.type==='split'){
    const pa = normalizeCoord(a.params.a);
    const pb = normalizeCoord(a.params.b);
    const mid = [(pa[0]+pb[0])/2, (pa[1]+pb[1])/2];
    map.flyTo(toLatLng(mid), 15, {duration: FLY_DURATION});
    await new Promise(resolve => map.once('moveend', resolve));
    splitMap(pa, pb, a.params.side, {color: a.params.color});
    await new Promise(r=>setTimeout(r,6000)); }\<close>
\<close>

definition play_split ::
  "env \<Rightarrow> lmap \<Rightarrow> coord \<Rightarrow> coord \<Rightarrow> string option \<Rightarrow> string option
     \<Rightarrow> action list \<times> lmap \<times> outcome" where
  "play_split e m a b side color =
     (let pa = normalizeCoord a;
          pb = normalizeCoord b
      in if \<not> wellformed pa \<or> \<not> wellformed pb then ([], m, Rejected LibraryError)
         else
           let mid = [(pa ! 0 + pb ! 0) / 2, (pa ! 1 + pb ! 1) / 2];
               m1 = flyTo e m (toLatLng mid) 15;
               moved = [FlyTo (toLatLng mid) 15, AwaitMoveEnd]
           in (case splitMap m1 pa pb side \<lparr>opt_id = None, opt_color = color\<rparr> of
                 Inl err \<Rightarrow> (moved, m1, Rejected err)
               | Inr (r, calls) \<Rightarrow> (moved @ calls @ [Wait 6000], m1, Resolved)))"

text \<open>
  \<^verbatim>\<open>else if(a.type==='route'){
    const latlngs = a.params.points.map(p=>toLatLng(p));
    const bounds = L.latLngBounds(latlngs);
    map.fitBounds(bounds.pad ? bounds.pad(0.2) : bounds, {duration: FLY_DURATION});
    await new Promise(resolve => map.once('moveend', resolve));
    await drawRoute(a.params.points, a.params.speed, {color: a.params.color}); }\<close>
  Leaflet's \<^verbatim>\<open>fitBounds\<close> throws on the bounds of no points.
\<close>

definition play_route ::
  "env \<Rightarrow> nat \<Rightarrow> lmap \<Rightarrow> coord list \<Rightarrow> number \<Rightarrow> string option
     \<Rightarrow> action list \<times> lmap \<times> outcome" where
  "play_route e fuel m points speed color =
     (if points = [] \<or> \<not> list_all wellformed points then ([], m, Rejected LibraryError)
      else
        let latlngs = map toLatLng points;
            bnds = Pad (LatLngBounds latlngs) 0.2;
            m1 = fitBounds e m bnds;
            moved = [FitBounds bnds False, AwaitMoveEnd];
            (r, calls, out) = drawRoute e fuel points (Some speed) \<lparr>opt_id = None, opt_color = color\<rparr>
        in (moved @ calls, m1, out))"

text \<open>
  \<^verbatim>\<open>else if(a.type==='polygon'){
    // Draw polygon outline immediately, then fill after 5s. Do NOT move the map.
    drawPolygon(a.params.points, a.params.color, {id: a.id});
    await new Promise(r=>setTimeout(r,6000)); }\<close>
\<close>

definition play_polygon ::
  "nat \<Rightarrow> lmap \<Rightarrow> string \<Rightarrow> coord list \<Rightarrow> string option \<Rightarrow> action list \<times> lmap \<times> outcome" where
  "play_polygon now m ident points color =
     (case drawPolygon now points color \<lparr>opt_id = Some ident, opt_color = None\<rparr> of
        Inl err \<Rightarrow> ([], m, Rejected err)
      | Inr (r, calls) \<Rightarrow> (calls @ [Wait 6000], m, Resolved))"

text \<open>
  \<^verbatim>\<open>else if(a.type==='marker'){
    map.flyTo(toLatLng(a.params.point), 16, {duration: FLY_DURATION});
    await new Promise(resolve => map.once('moveend', resolve));
    dropMarker(a.params.point, a.params.color);
    await new Promise(r=>setTimeout(r,500)); }\<close>
\<close>

definition play_marker ::
  "env \<Rightarrow> lmap \<Rightarrow> coord \<Rightarrow> string option \<Rightarrow> action list \<times> lmap \<times> outcome" where
  "play_marker e m pnt color =
     (if \<not> wellformed pnt then ([], m, Rejected LibraryError)
      else
        let m1 = flyTo e m (toLatLng pnt) 16;
            moved = [FlyTo (toLatLng pnt) 16, AwaitMoveEnd]
        in (case dropMarker (Some pnt) color no_opts of
              Inl err \<Rightarrow> (moved, m1, Rejected err)
            | Inr (r, calls) \<Rightarrow> (moved @ calls @ [Wait 500], m1, Resolved)))"

text \<open>
  \<^verbatim>\<open>else if(a.type==='keyframe'){
    const c = a.params.center;
    const z = a.params.zoom != null ? a.params.zoom : map.getZoom();
    try{
      map.flyTo(toLatLng(c), z, {duration: FLY_DURATION});
      await new Promise(resolve => map.once('moveend', resolve));
    }catch(e){
      console.warn('Invalid keyframe center', e);
      map.setZoom(z); }
    await new Promise(r=>setTimeout(r,800)); }\<close>
\<close>

definition play_keyframe ::
  "env \<Rightarrow> lmap \<Rightarrow> coord \<Rightarrow> real option \<Rightarrow> action list \<times> lmap \<times> outcome" where
  "play_keyframe e m c zoom =
     (let z = (case zoom of Some v \<Rightarrow> v | None \<Rightarrow> getZoom m)
      in if wellformed c
         then ([FlyTo (toLatLng c) z, AwaitMoveEnd, Wait 800], flyTo e m (toLatLng c) z, Resolved)
         else ([SetZoom z, Wait 800], setZoom e m z, Resolved))"

fun playAnimation ::
  "env \<Rightarrow> nat \<Rightarrow> nat \<Rightarrow> lmap \<Rightarrow> animation \<Rightarrow> action list \<times> lmap \<times> outcome" where
  "playAnimation e fuel now m (CircleAnim ident centre radius color) =
     play_circle e now m ident centre radius color"
| "playAnimation e fuel now m (SplitAnim ident a b side color) =
     play_split e m a b side color"
| "playAnimation e fuel now m (RouteAnim ident points speed color) =
     play_route e fuel m points speed color"
| "playAnimation e fuel now m (PolygonAnim ident points color) =
     play_polygon now m ident points color"
| "playAnimation e fuel now m (MarkerAnim ident pnt color) =
     play_marker e m pnt color"
| "playAnimation e fuel now m (KeyframeAnim ident c zoom) =
     play_keyframe e m c zoom"




section \<open>Notions used to state the properties\<close>



text \<open>A function call returns an identifier: it returns, and the value is a string
  that names the drawn item.\<close>

fun returns_identifier :: "error + (retval \<times> action list) \<Rightarrow> bool" where
  "returns_identifier (Inr (Identifier s, calls)) = True"
| "returns_identifier r = False"


text \<open>A registry content is serialisable as JSON when \<^verbatim>\<open>JSON.stringify\<close> gives a text
  for it (never the empty string: an array prints as \<^verbatim>\<open>[...]\<close>) that \<^verbatim>\<open>JSON.parse\<close>
  reads back as the same array.\<close>

definition serialisable :: "json \<Rightarrow> animation list \<Rightarrow> bool" where
  "serialisable j as = (stringify j as \<noteq> [] \<and> parse j (stringify j as) = IsArray as)"

section \<open>Example values\<close>

text \<open>
  Concrete values on which the theorems below are run: a map of 800 by 600 pixels whose
  projection is linear (100 pixels per degree, y downwards), a flat toy geodesy helper, map
  transitions that move the view to the target, a \<^verbatim>\<open>parseFloat\<close> that knows one
  numeral, a storage without quota, and a JSON codec restricted to the two registry
  contents of the examples.
\<close>

definition demo_map :: lmap where
  "demo_map =
     \<lparr>getCenter = \<lparr>lat = - 28, lng = 153\<rparr>, getZoom = 13,
      getSize = \<lparr>pt_x = 800, pt_y = 600\<rparr>,
      latLngToLayerPoint = (\<lambda>l. \<lparr>pt_x = 100 * lng l, pt_y = - (100 * lat l)\<rparr>),
      layerPointToLatLng = (\<lambda>p. \<lparr>lat = - (pt_y p / 100), lng = pt_x p / 100\<rparr>)\<rparr>"

definition demo_env :: env where
  "demo_env =
     \<lparr>destination = (\<lambda>c km bearing.
          if bearing = 0 then [c ! 0, c ! 1 + km]
          else if bearing = 90 then [c ! 0 + km, c ! 1]
          else if bearing = 180 then [c ! 0, c ! 1 - km]
          else [c ! 0 - km, c ! 1]),
      along = (\<lambda>line d. line ! 0),
      length_km = (\<lambda>line. 1),
      flyTo = (\<lambda>m c z. m\<lparr>getCenter := c, getZoom := z\<rparr>),
      fitBounds = (\<lambda>m b. m),
      setZoom = (\<lambda>m z. m\<lparr>getZoom := z\<rparr>),
      parseFloat = (\<lambda>s. if s = ''500'' then Num 500 else NaN),
      accepts = (\<lambda>items k v. True)\<rparr>"

definition demo_registry :: "animation list" where
  "demo_registry =
     [KeyframeAnim ''k1'' [153, - 28] (Some 13),
      PolygonAnim ''p2'' [[0, 0], [1, 0], [0, 1]] (Some ''purple''),
      MarkerAnim ''m3'' [153, - 28] (Some ''#ff0000'')]"

definition demo_json :: json where
  "demo_json =
     \<lparr>stringify = (\<lambda>as. if as = demo_registry then ''[k1,p2,m3]'' else ''[]''),
      parse = (\<lambda>s. if s = ''[k1,p2,m3]'' then IsArray demo_registry
                    else if s = ''[]'' then IsArray [] else SyntaxError)\<rparr>"

definition demo_world :: world where
  "demo_world =
     \<lparr>ui_mode = ''editor'', animations = demo_registry, animList = [],
      localStorage = Map.empty, the_map = demo_map, hasKeyframeLayer = True\<rparr>"

section \<open>Coordinate normalisation\<close>

lemma normalizeCoord_pair:
  "normalizeCoord [a, b] = (if \<bar>a\<bar> \<le> 90 \<and> \<bar>b\<bar> > 90 then [b, a] else [a, b])"
  by simp

lemma normalizeCoord_idem: "normalizeCoord (normalizeCoord pt) = normalizeCoord pt"
proof (cases pt)
  case Nil
  then show ?thesis by simp
next
  case (Cons a as)
  then show ?thesis by (cases as) auto
qed

lemma normalizeCoord_valid_lnglat:
  "\<bar>b\<bar> \<le> 90 \<Longrightarrow> normalizeCoord [a, b] = [a, b]"
  by simp

text \<open>
  Claim C9. The normalisation used by \<^verbatim>\<open>splitMap\<close>, \<^verbatim>\<open>dropMarker\<close> and
  \<^verbatim>\<open>playAnimation\<close> swaps a pair of numbers exactly when the absolute value of the
  first is at most 90 and that of the second exceeds 90, and returns the pair unchanged
  otherwise; normalising twice is the same as normalising once; a pair whose components
  both have absolute value at most 90 is never swapped.
\<close>

theorem normalizeCoord_swap_iff_and_idempotent:
  "(normalizeCoord [a, b] = (if \<bar>a\<bar> \<le> 90 \<and> \<bar>b\<bar> > 90 then [b, a] else [a, b]))
   \<and> normalizeCoord (normalizeCoord pt) = normalizeCoord pt
   \<and> (\<bar>a\<bar> \<le> 90 \<and> \<bar>b\<bar> \<le> 90 \<longrightarrow> normalizeCoord [a, b] = [a, b])"
  by (simp add: normalizeCoord_idem)

theorem normalizeCoord_witness:
  "normalizeCoord [-27, 153] = [153, -27]
   \<and> normalizeCoord (normalizeCoord [-27, 153]) = normalizeCoord [-27, 153]
   \<and> normalizeCoord [-27, 53] = [-27, 53]"
  using normalizeCoord_swap_iff_and_idempotent [of "-27" 153 "[-27, 153]"]
    normalizeCoord_swap_iff_and_idempotent [of "-27" 53 "[]"]
  by simp

section \<open>Reordering the registry\<close>

lemma findIndex_ge: "- 1 \<le> findIndex P xs"
  by (induction xs) (auto simp: Let_def)

lemma findIndex_neg_iff: "findIndex P xs < 0 \<longleftrightarrow> (\<forall>x \<in> set xs. \<not> P x)"
  using findIndex_ge [of P]
  by (induction xs) (auto simp: Let_def)

lemma findIndex_found:
  "0 \<le> findIndex P xs \<Longrightarrow> nat (findIndex P xs) < length xs \<and> P (xs ! nat (findIndex P xs))"
proof (induction xs)
  case Nil
  then show ?case by simp
next
  case (Cons a xs)
  show ?case
  proof (cases "P a")
    case True
    then show ?thesis by simp
  next
    case False
    with Cons.prems have nn: "0 \<le> findIndex P xs"
      by (auto simp: Let_def split: if_splits)
    with Cons.IH have ih: "nat (findIndex P xs) < length xs" "P (xs ! nat (findIndex P xs))"
      by auto
    from False nn have eq: "findIndex P (a # xs) = findIndex P xs + 1"
      by (simp add: Let_def)
    have "nat (findIndex P xs + 1) = Suc (nat (findIndex P xs))"
      using nn by simp
    with eq ih show ?thesis by simp
  qed
qed

lemma animations_save [simp]: "animations (saveAnimationsToStorage e j w) = animations w"
  by (simp add: saveAnimationsToStorage_def Let_def)

lemma animations_add [simp]: "animations (addAnimationEntry e j a w) = animations w"
  by (simp add: addAnimationEntry_def)

lemma animations_fold_add [simp]:
  "animations (fold (addAnimationEntry e j) as w) = animations w"
  by (induction as arbitrary: w) auto

lemma animations_refresh [simp]: "animations (refreshAnimList e j w) = animations w"
  by (simp add: refreshAnimList_def)

text \<open>
  Claim C6. For every registry state, \<^verbatim>\<open>moveAnimationById\<close> with an id that is in the
  registry and a direction of -1 or +1 swaps the (first) entry with that id with its
  neighbour in that direction, and keeps the multiset of entries and the length of the
  registry; when the id is absent, or the move would leave the registry at either end,
  nothing changes.
\<close>

theorem moveAnimationById_swaps_neighbour:
  "((\<exists>a \<in> set (animations w). anim_id a = ident) \<and> (d = 1 \<or> d = - 1) \<longrightarrow>
      (let idx = findIndex (\<lambda>a. anim_id a = ident) (animations w);
           newIdx = idx + d
       in 0 \<le> idx \<and> nat idx < length (animations w)
          \<and> anim_id (animations w ! nat idx) = ident
          \<and> (if 0 \<le> newIdx \<and> newIdx < int (length (animations w))
              then animations (moveAnimationById e j ident d w) =
                     (animations w)[nat idx := animations w ! nat newIdx,
                                    nat newIdx := animations w ! nat idx]
              else moveAnimationById e j ident d w = w)))
   \<and> (\<not> (\<exists>a \<in> set (animations w). anim_id a = ident) \<longrightarrow>
        moveAnimationById e j ident d w = w)
   \<and> mset (animations (moveAnimationById e j ident d w)) = mset (animations w)
   \<and> length (animations (moveAnimationById e j ident d w)) = length (animations w)"
proof -
  let ?P = "\<lambda>a. anim_id a = ident"
  let ?as = "animations w"
  let ?idx = "findIndex ?P ?as"
  have absent: "\<not> (\<exists>a \<in> set ?as. ?P a) \<Longrightarrow> moveAnimationById e j ident d w = w"
    using findIndex_neg_iff [of ?P ?as] by (simp add: moveAnimationById_def)
  have present: "0 \<le> ?idx \<and> nat ?idx < length ?as \<and> ?P (?as ! nat ?idx)"
    if "\<exists>a \<in> set ?as. ?P a"
  proof -
    from that have "\<not> ?idx < 0" using findIndex_neg_iff [of ?P ?as] by blast
    then have "0 \<le> ?idx" by simp
    with findIndex_found [of ?P ?as] show ?thesis by simp
  qed
  have outside: "moveAnimationById e j ident d w = w"
    if "\<not> (0 \<le> ?idx + d \<and> ?idx + d < int (length ?as))"
    using that by (auto simp: moveAnimationById_def Let_def)
  have inside: "animations (moveAnimationById e j ident d w) =
      ?as[nat ?idx := ?as ! nat (?idx + d), nat (?idx + d) := ?as ! nat ?idx]"
    if "0 \<le> ?idx" "0 \<le> ?idx + d" "?idx + d < int (length ?as)"
    using that by (simp add: moveAnimationById_def Let_def)
  have ms: "mset (animations (moveAnimationById e j ident d w)) = mset ?as"
  proof (cases "0 \<le> ?idx \<and> 0 \<le> ?idx + d \<and> ?idx + d < int (length ?as)")
    case True
    then have lt: "nat ?idx < length ?as" "nat (?idx + d) < length ?as"
      using findIndex_found [of ?P ?as] by auto
    from True inside have "animations (moveAnimationById e j ident d w) =
      ?as[nat ?idx := ?as ! nat (?idx + d), nat (?idx + d) := ?as ! nat ?idx]" by simp
    with mset_swap [OF lt(2) lt(1)] show ?thesis by simp
  next
    case False
    then have "moveAnimationById e j ident d w = w"
      by (auto simp: moveAnimationById_def Let_def)
    then show ?thesis by simp
  qed
  have len: "length (animations (moveAnimationById e j ident d w)) = length ?as"
    using ms by (metis size_mset)
  show ?thesis
    using absent present outside inside ms len
    by (auto simp: Let_def)
qed

theorem moveAnimationById_witness:
  "(\<exists>a \<in> set (animations demo_world). anim_id a = ''p2'')
   \<and> animations (moveAnimationById demo_env demo_json ''p2'' 1 demo_world) =
       [KeyframeAnim ''k1'' [153, - 28] (Some 13),
        MarkerAnim ''m3'' [153, - 28] (Some ''#ff0000''),
        PolygonAnim ''p2'' [[0, 0], [1, 0], [0, 1]] (Some ''purple'')]
   \<and> animations (moveAnimationById demo_env demo_json ''p2'' (- 1) demo_world) =
       [PolygonAnim ''p2'' [[0, 0], [1, 0], [0, 1]] (Some ''purple''),
        KeyframeAnim ''k1'' [153, - 28] (Some 13),
        MarkerAnim ''m3'' [153, - 28] (Some ''#ff0000'')]
   \<and> moveAnimationById demo_env demo_json ''k1'' (- 1) demo_world = demo_world
   \<and> moveAnimationById demo_env demo_json ''m3'' 1 demo_world = demo_world
   \<and> \<not> (\<exists>a \<in> set (animations demo_world). anim_id a = ''zz'')
   \<and> moveAnimationById demo_env demo_json ''zz'' 1 demo_world = demo_world"
  using moveAnimationById_swaps_neighbour [of demo_world "''p2''" 1 demo_env demo_json]
    moveAnimationById_swaps_neighbour [of demo_world "''p2''" "- 1" demo_env demo_json]
    moveAnimationById_swaps_neighbour [of demo_world "''k1''" "- 1" demo_env demo_json]
    moveAnimationById_swaps_neighbour [of demo_world "''m3''" 1 demo_env demo_json]
    moveAnimationById_swaps_neighbour [of demo_world "''zz''" 1 demo_env demo_json]
  by (simp add: demo_world_def demo_registry_def Let_def)

section \<open>The split line and the shaded half-plane\<close>

lemma or_one_nonzero [simp]: "or_one e \<noteq> 0"
  by (simp add: or_one_def)

lemma or_one_sqrt_pos: "0 \<le> q \<Longrightarrow> 0 < or_one (sqrt q)"
  by (cases "q = 0") (auto simp: or_one_def)


lemma norm_len_pos: "0 < or_one (sqrt (a * a + b * b))"
  by (rule or_one_sqrt_pos) simp




lemma split_perp:
  "px (split_geometry m A B) * vx (split_geometry m A B)
   + py (split_geometry m A B) * vy (split_geometry m A B) = 0"
  by (simp add: split_geometry_def Let_def)

























section \<open>The stepping loop of drawRoute\<close>










section \<open>What the drawing primitives return\<close>

text \<open>
  Claim C2 says that each of the six drawing primitives returns an identifier of the
  drawn item for every valid input. It fails for \<^verbatim>\<open>splitMap\<close>, which has no
  \<^verbatim>\<open>return\<close> statement, and for \<^verbatim>\<open>dropMarker\<close>, which returns the marker layer.
\<close>

theorem primitives_not_all_identifiers:
  "\<not> returns_identifier (splitMap demo_map [0, 0] [6, 8] (Some ''A'') no_opts)
   \<and> \<not> returns_identifier (dropMarker (Some [153, - 28]) (Some ''#ff0000'') no_opts)"
  by (simp add: splitMap_def dropMarker_def wellformed_def Let_def)

text \<open>
  Claim C2, amended. \<^verbatim>\<open>drawCircle\<close> and \<^verbatim>\<open>drawPolygon\<close> return the identifier of the
  drawn item for every valid input: \<^verbatim>\<open>opts.id\<close> when it is a non-empty string, otherwise
  a name made from the clock. \<^verbatim>\<open>placeKeyframe\<close> returns an object that holds such an
  identifier with the captured centre and zoom; \<^verbatim>\<open>dropMarker\<close> returns the marker
  layer it has added; \<^verbatim>\<open>splitMap\<close> returns nothing; \<^verbatim>\<open>drawRoute\<close> returns a promise.
\<close>

theorem primitives_return_values:
  "(wellformed centre \<longrightarrow>
      (\<exists>calls. drawCircle now centre radius color opts =
         Inr (Identifier (or_default (opt_id opts) (''circle-'' @ string_of_nat now)), calls))
      \<and> returns_identifier (drawCircle now centre radius color opts))
   \<and> (3 \<le> length points \<and> list_all wellformed points \<longrightarrow>
      (\<exists>calls. drawPolygon now points color opts =
         Inr (Identifier (or_default (opt_id opts) (''polygon-'' @ string_of_nat now)), calls))
      \<and> returns_identifier (drawPolygon now points color opts))
   \<and> (\<exists>calls. placeKeyframe m now opts =
         (KeyframeObject (or_default (opt_id opts) (''keyframe-'' @ string_of_nat now))
            [lng (getCenter m), lat (getCenter m)] (getZoom m), calls))
   \<and> (wellformed (normalizeCoord pt) \<longrightarrow>
      (\<exists>marker animId. dropMarker (Some pt) color opts =
         Inr (MarkerObject marker animId, [AddLayer AnimationLayer marker animId])))
   \<and> (wellformed (normalizeCoord pointA) \<and> wellformed (normalizeCoord pointB) \<longrightarrow>
      (\<exists>calls. splitMap m pointA pointB side opts = Inr (Undefined, calls)))
   \<and> fst (drawRoute e fuel points speed opts) = PromiseObject"
proof (intro conjI impI)
  assume "wellformed centre"
  then show "\<exists>calls. drawCircle now centre radius color opts =
         Inr (Identifier (or_default (opt_id opts) (''circle-'' @ string_of_nat now)), calls)"
    and "returns_identifier (drawCircle now centre radius color opts)"
    by (simp_all add: drawCircle_def Let_def)
next
  assume "3 \<le> length points \<and> list_all wellformed points"
  then show "\<exists>calls. drawPolygon now points color opts =
         Inr (Identifier (or_default (opt_id opts) (''polygon-'' @ string_of_nat now)), calls)"
    and "returns_identifier (drawPolygon now points color opts)"
    by (simp_all add: drawPolygon_def Let_def)
next
  show "\<exists>calls. placeKeyframe m now opts =
         (KeyframeObject (or_default (opt_id opts) (''keyframe-'' @ string_of_nat now))
            [lng (getCenter m), lat (getCenter m)] (getZoom m), calls)"
    by (simp add: placeKeyframe_def Let_def)
next
  assume "wellformed (normalizeCoord pt)"
  then show "\<exists>marker animId. dropMarker (Some pt) color opts =
         Inr (MarkerObject marker animId, [AddLayer AnimationLayer marker animId])"
    by (simp add: dropMarker_def Let_def)
next
  assume "wellformed (normalizeCoord pointA) \<and> wellformed (normalizeCoord pointB)"
  then show "\<exists>calls. splitMap m pointA pointB side opts = Inr (Undefined, calls)"
    by (simp add: splitMap_def Let_def)
next
  show "fst (drawRoute e fuel points speed opts) = PromiseObject"
    by (simp add: drawRoute_def Let_def split_beta)
qed

theorem primitives_return_witness:
  "wellformed [153, - 28]
   \<and> returns_identifier (drawCircle 42 [153, - 28] 500 (Some ''gold'') no_opts)
   \<and> fst (projr (drawCircle 42 [153, - 28] 500 (Some ''gold'') no_opts)) = Identifier ''circle-42''
   \<and> fst (projr (drawCircle 42 [153, - 28] 500 (Some ''gold'')
              \<lparr>opt_id = Some ''anim-7'', opt_color = None\<rparr>)) = Identifier ''anim-7''
   \<and> 3 \<le> length [[0, 0], [1, 0], [0, 1 :: real]] \<and> list_all wellformed [[0, 0], [1, 0], [0, 1]]
   \<and> returns_identifier (drawPolygon 42 [[0, 0], [1, 0], [0, 1]] (Some ''gold'') no_opts)
   \<and> fst (placeKeyframe demo_map 42 no_opts) = KeyframeObject ''keyframe-42'' [153, - 28] 13
   \<and> wellformed (normalizeCoord [0, 0]) \<and> wellformed (normalizeCoord [6, 8])
   \<and> fst (projr (splitMap demo_map [0, 0] [6, 8] (Some ''A'') no_opts)) = Undefined
   \<and> fst (projr (dropMarker (Some [153, - 28]) (Some ''#ff0000'') no_opts)) =
        MarkerObject (CircleMarker \<lparr>lat = - 28, lng = 153\<rparr> 8 (Some ''#ff0000'')) None"
proof -
  have s42: "string_of_nat 42 = ''42''" by code_simp
  note t = primitives_return_values [where centre = "[153, - 28]" and now = 42
      and radius = 500 and color = "Some ''gold''" and opts = no_opts
      and points = "[[0, 0], [1, 0], [0, 1]]" and m = demo_map and pt = "[153, - 28]"
      and pointA = "[0, 0]" and pointB = "[6, 8]" and side = "Some ''A''"
      and e = demo_env and fuel = 3 and speed = None]
  have wf: "wellformed [153, - 28]" "3 \<le> length [[0, 0], [1, 0], [0, 1 :: real]]"
    "list_all wellformed [[0, 0], [1, 0], [0, 1]]"
    "wellformed (normalizeCoord [0, 0])" "wellformed (normalizeCoord [6, 8])"
    by (simp_all add: wellformed_def)
  from t wf have ids: "returns_identifier (drawCircle 42 [153, - 28] 500 (Some ''gold'') no_opts)"
    "returns_identifier (drawPolygon 42 [[0, 0], [1, 0], [0, 1]] (Some ''gold'') no_opts)"
    by simp_all
  have vals: "fst (projr (drawCircle 42 [153, - 28] 500 (Some ''gold'') no_opts)) = Identifier ''circle-42''"
    "fst (projr (drawCircle 42 [153, - 28] 500 (Some ''gold'')
              \<lparr>opt_id = Some ''anim-7'', opt_color = None\<rparr>)) = Identifier ''anim-7''"
    "fst (placeKeyframe demo_map 42 no_opts) = KeyframeObject ''keyframe-42'' [153, - 28] 13"
    "fst (projr (splitMap demo_map [0, 0] [6, 8] (Some ''A'') no_opts)) = Undefined"
    "fst (projr (dropMarker (Some [153, - 28]) (Some ''#ff0000'') no_opts)) =
        MarkerObject (CircleMarker \<lparr>lat = - 28, lng = 153\<rparr> 8 (Some ''#ff0000'')) None"
    by (simp_all add: drawCircle_def placeKeyframe_def splitMap_def dropMarker_def s42
        wellformed_def Let_def no_opts_def or_default_def demo_map_def toLatLng_def)
  from wf ids vals show ?thesis by (intro conjI)
qed

section \<open>Keyframes\<close>

lemma toLatLng_of_center: "toLatLng [lng (c :: latlng), lat c] = c"
  by (simp add: toLatLng_def)

text \<open>
  Claim C8. \<^verbatim>\<open>placeKeyframe\<close> returns an object whose centre and zoom are the map's
  centre and zoom at the time of the call; playing back a keyframe entry with a stored
  centre and zoom flies the map to exactly these; and the entry that the keyframe button
  stores plays back as a flight to the view the map had when the button was pressed.
\<close>

theorem keyframe_captures_and_restores_view:
  "(\<exists>ident calls. placeKeyframe m now opts =
       (KeyframeObject ident [lng (getCenter m), lat (getCenter m)] (getZoom m), calls))
   \<and> (wellformed c \<longrightarrow>
        playAnimation e fuel now2 m2 (KeyframeAnim ident2 c (Some z)) =
          ([FlyTo (toLatLng c) z, AwaitMoveEnd, Wait 800], flyTo e m2 (toLatLng c) z, Resolved))
   \<and> (\<exists>ident. animations (fst (btnKeyframe e j now w)) =
          animations w @ [KeyframeAnim ident [lng (getCenter (the_map w)), lat (getCenter (the_map w))]
                            (Some (getZoom (the_map w)))]
        \<and> playAnimation e fuel now2 m2 (last (animations (fst (btnKeyframe e j now w)))) =
            ([FlyTo (getCenter (the_map w)) (getZoom (the_map w)), AwaitMoveEnd, Wait 800],
             flyTo e m2 (getCenter (the_map w)) (getZoom (the_map w)), Resolved))"
proof (intro conjI impI)
  show "\<exists>ident calls. placeKeyframe m now opts =
       (KeyframeObject ident [lng (getCenter m), lat (getCenter m)] (getZoom m), calls)"
    by (simp add: placeKeyframe_def Let_def)
next
  assume "wellformed c"
  then show "playAnimation e fuel now2 m2 (KeyframeAnim ident2 c (Some z)) =
          ([FlyTo (toLatLng c) z, AwaitMoveEnd, Wait 800], flyTo e m2 (toLatLng c) z, Resolved)"
    by (simp add: play_keyframe_def)
next
  let ?c = "getCenter (the_map w)"
  let ?z = "getZoom (the_map w)"
  let ?ident = "or_default (opt_id no_opts) (''keyframe-'' @ string_of_nat now)"
  have pushed: "animations (fst (btnKeyframe e j now w)) =
      animations w @ [KeyframeAnim ?ident [lng ?c, lat ?c] (Some ?z)]"
    by (simp add: btnKeyframe_def placeKeyframe_def push_entry_def Let_def)
  have wf: "wellformed [lng ?c, lat ?c]" by (simp add: wellformed_def)
  have "playAnimation e fuel now2 m2 (last (animations (fst (btnKeyframe e j now w)))) =
            ([FlyTo ?c ?z, AwaitMoveEnd, Wait 800], flyTo e m2 ?c ?z, Resolved)"
    unfolding pushed using wf by (simp add: play_keyframe_def toLatLng_of_center Let_def)
  with pushed show "\<exists>ident. animations (fst (btnKeyframe e j now w)) =
          animations w @ [KeyframeAnim ident [lng ?c, lat ?c] (Some ?z)]
        \<and> playAnimation e fuel now2 m2 (last (animations (fst (btnKeyframe e j now w)))) =
            ([FlyTo ?c ?z, AwaitMoveEnd, Wait 800], flyTo e m2 ?c ?z, Resolved)"
    by blast
qed

theorem keyframe_witness:
  "wellformed [153, - 28]
   \<and> fst (placeKeyframe demo_map 42 no_opts) = KeyframeObject ''keyframe-42'' [153, - 28] 13
   \<and> fst (playAnimation demo_env 0 0 (demo_map\<lparr>getZoom := 3\<rparr>)
            (KeyframeAnim ''keyframe-42'' [153, - 28] (Some 13))) =
        [FlyTo \<lparr>lat = - 28, lng = 153\<rparr> 13, AwaitMoveEnd, Wait 800]"
proof -
  have s42: "string_of_nat 42 = ''42''" by code_simp
  have wf: "wellformed [153, - 28]" by (simp add: wellformed_def)
  have "fst (placeKeyframe demo_map 42 no_opts) = KeyframeObject ''keyframe-42'' [153, - 28] 13"
    by (simp add: placeKeyframe_def Let_def no_opts_def or_default_def demo_map_def s42)
  moreover have "fst (playAnimation demo_env 0 0 (demo_map\<lparr>getZoom := 3\<rparr>)
            (KeyframeAnim ''keyframe-42'' [153, - 28] (Some 13))) =
        [FlyTo \<lparr>lat = - 28, lng = 153\<rparr> 13, AwaitMoveEnd, Wait 800]"
    using keyframe_captures_and_restores_view [where c = "[153, - 28]" and e = demo_env
        and fuel = 0 and ?now2.0 = 0 and ?m2.0 = "demo_map\<lparr>getZoom := 3\<rparr>"
        and ?ident2.0 = "''keyframe-42''" and z = 13] wf
    by (simp add: toLatLng_def)
  ultimately show ?thesis using wf by (intro conjI)
qed

section \<open>Cancelling a capture\<close>

lemma capturePoints_clicks_then_cancel:
  "capturePoints True (map MapClick clicks @ CancelClick # evs) pts = Some (Inl (Error ''cancelled''))"
  by (induction clicks arbitrary: pts) (simp_all add: Let_def)

lemma capturePoints_rejects_only_on_cancel:
  "capturePoints multiple evs pts = Some (Inl err) \<Longrightarrow> err = Error ''cancelled''"
proof (induction multiple evs pts rule: capturePoints.induct)
  case (1 multiple points)
  then show ?case by simp
next
  case (2 multiple l evs points)
  then show ?case by (cases multiple) (simp_all add: Let_def)
next
  case (3 multiple evs points)
  then show ?case by simp
next
  case (4 multiple evs points)
  then show ?case by simp
qed

text \<open>
  Claim C7. Cancelling a point capture (a click on Cancel while the capture is active:
  at once, or in a multiple capture after any number of map clicks) makes
  \<^verbatim>\<open>capturePoints\<close> reject with the error \<^verbatim>\<open>cancelled\<close>; each of the five toolbar
  handlers that capture points catches the rejection and leaves the state, and so the
  animation registry, unchanged: no entry is added.
\<close>

theorem cancel_rejects_and_leaves_registry:
  "capturePoints multiple (CancelClick # evs) pts = Some (Inl (Error ''cancelled''))
   \<and> capturePoints True (map MapClick clicks @ CancelClick # evs) pts
       = Some (Inl (Error ''cancelled''))
   \<and> (capturePoints False evs1 [] = Some (Inl err) \<longrightarrow>
        btnCircle e j evs1 radiusStr color now w = (w, [])
        \<and> btnDropMarker e j evs1 markerColor now w = (w, []))
   \<and> (capturePoints True evs2 [] = Some (Inl err) \<longrightarrow>
        btnSplit e j evs2 side color now w = (w, [])
        \<and> btnRoute e j evs2 speed color now w = (w, [])
        \<and> btnPolygon e j evs2 color now w = (w, []))
   \<and> animations (fst (btnCircle e j (CancelClick # evs) radiusStr color now w)) = animations w
   \<and> animations (fst (btnDropMarker e j (CancelClick # evs) markerColor now w)) = animations w
   \<and> animations (fst (btnSplit e j (map MapClick clicks @ CancelClick # evs) side color now w))
       = animations w
   \<and> animations (fst (btnRoute e j (map MapClick clicks @ CancelClick # evs) speed color now w))
       = animations w
   \<and> animations (fst (btnPolygon e j (map MapClick clicks @ CancelClick # evs) color now w))
       = animations w"
  by (simp add: capturePoints_clicks_then_cancel btnCircle_def btnDropMarker_def btnSplit_def
      btnRoute_def btnPolygon_def)

theorem cancel_witness:
  "capturePoints True [MapClick \<lparr>lat = 1, lng = 2\<rparr>, CancelClick, StopClick] []
     = Some (Inl (Error ''cancelled''))
   \<and> btnSplit demo_env demo_json [MapClick \<lparr>lat = 1, lng = 2\<rparr>, CancelClick, StopClick]
        (Some ''A'') None 42 demo_world = (demo_world, [])
   \<and> capturePoints False [CancelClick] [] = Some (Inl (Error ''cancelled''))
   \<and> btnCircle demo_env demo_json [CancelClick] (Some ''500'') None 42 demo_world
        = (demo_world, [])
   \<and> length (animations (fst (btnSplit demo_env demo_json
        [MapClick \<lparr>lat = 1, lng = 2\<rparr>, MapClick \<lparr>lat = 3, lng = 4\<rparr>, StopClick]
        (Some ''A'') None 42 demo_world))) = Suc (length (animations demo_world))"
proof -
  have c2: "capturePoints True [MapClick \<lparr>lat = 1, lng = 2\<rparr>, CancelClick, StopClick] []
     = Some (Inl (Error ''cancelled''))"
    by (simp add: Let_def)
  have c1: "capturePoints False [CancelClick] [] = Some (Inl (Error ''cancelled''))" by simp
  note t = cancel_rejects_and_leaves_registry [where ?evs1.0 = "[CancelClick]"
      and ?evs2.0 = "[MapClick \<lparr>lat = 1, lng = 2\<rparr>, CancelClick, StopClick]"
      and err = "Error ''cancelled''" and e = demo_env and j = demo_json and now = 42
      and w = demo_world and side = "Some ''A''" and color = None and radiusStr = "Some ''500''"]
  from t c1 c2 have
    "btnSplit demo_env demo_json [MapClick \<lparr>lat = 1, lng = 2\<rparr>, CancelClick, StopClick]
        (Some ''A'') None 42 demo_world = (demo_world, [])"
    "btnCircle demo_env demo_json [CancelClick] (Some ''500'') None 42 demo_world
        = (demo_world, [])"
    by simp_all
  moreover have "length (animations (fst (btnSplit demo_env demo_json
        [MapClick \<lparr>lat = 1, lng = 2\<rparr>, MapClick \<lparr>lat = 3, lng = 4\<rparr>, StopClick]
        (Some ''A'') None 42 demo_world))) = Suc (length (animations demo_world))"
    by (simp add: btnSplit_def Let_def push_entry_def)
  ultimately show ?thesis using c1 c2 by (intro conjI)
qed

section \<open>Saving and loading the registry\<close>

lemma animList_save [simp]: "animList (saveAnimationsToStorage e j w) = animList w"
  by (simp add: saveAnimationsToStorage_def Let_def)

lemma animList_fold_add:
  "animList (fold (addAnimationEntry e j) as w) =
     animList w @ map (\<lambda>a. anim_type a @ '' '' @ anim_id a) as"
  by (induction as arbitrary: w) (simp_all add: addAnimationEntry_def)

lemma animList_refresh:
  "animList (refreshAnimList e j w) = map (\<lambda>a. anim_type a @ '' '' @ anim_id a) (animations w)"
  by (simp add: refreshAnimList_def animList_fold_add)

lemma save_refused_keeps_state:
  "\<not> accepts e (localStorage w) STORAGE_KEY (stringify j (animations w)) \<Longrightarrow>
   saveAnimationsToStorage e j w = w"
  by (simp add: saveAnimationsToStorage_def Let_def)

text \<open>
  Claim C5. For a registry content that is serialisable as JSON, saving it with
  \<^verbatim>\<open>saveAnimationsToStorage\<close> (the browser accepting the write) and then loading with
  \<^verbatim>\<open>loadAnimationsFromStorage\<close>, in the same state or in any later state with the same
  storage, restores a registry equal to the saved one, and the sidebar lists its entries.
  What is stored is the one JSON text of the array.
\<close>

theorem save_then_load_restores_registry:
  assumes ser: "serialisable j (animations w)"
    and acc: "accepts e (localStorage w) STORAGE_KEY (stringify j (animations w))"
    and same: "localStorage w2 = localStorage (saveAnimationsToStorage e j w)"
  shows "animations (loadAnimationsFromStorage e j w2) = animations w
       \<and> animations (loadAnimationsFromStorage e j (saveAnimationsToStorage e j w)) = animations w
       \<and> localStorage (saveAnimationsToStorage e j w) STORAGE_KEY
           = Some (stringify j (animations w))
       \<and> animList (loadAnimationsFromStorage e j w2)
           = map (\<lambda>a. anim_type a @ '' '' @ anim_id a) (animations w)"
proof -
  let ?txt = "stringify j (animations w)"
  have stored: "localStorage (saveAnimationsToStorage e j w) STORAGE_KEY = Some ?txt"
    using acc by (simp add: saveAnimationsToStorage_def Let_def)
  from ser have ne: "?txt \<noteq> []" and rd: "parse j ?txt = IsArray (animations w)"
    by (simp_all add: serialisable_def)
  have load: "animations (loadAnimationsFromStorage e j v) = animations w"
    if "localStorage v STORAGE_KEY = Some ?txt" for v
    using that ne rd by (simp add: loadAnimationsFromStorage_def)
  have list: "animList (loadAnimationsFromStorage e j v)
           = map (\<lambda>a. anim_type a @ '' '' @ anim_id a) (animations w)"
    if "localStorage v STORAGE_KEY = Some ?txt" for v
    using that ne rd by (simp add: loadAnimationsFromStorage_def animList_refresh)
  from load [of w2] load [of "saveAnimationsToStorage e j w"] list [of w2] stored same
  show ?thesis by simp
qed

theorem save_then_load_witness:
  "serialisable demo_json (animations demo_world)
   \<and> accepts demo_env (localStorage demo_world) STORAGE_KEY
        (stringify demo_json (animations demo_world))
   \<and> animations (loadAnimationsFromStorage demo_env demo_json
        ((saveAnimationsToStorage demo_env demo_json demo_world)\<lparr>animations := []\<rparr>))
       = demo_registry"
proof -
  have ser: "serialisable demo_json (animations demo_world)"
    by (simp add: serialisable_def demo_json_def demo_world_def)
  have acc: "accepts demo_env (localStorage demo_world) STORAGE_KEY
        (stringify demo_json (animations demo_world))"
    by (simp add: demo_env_def)
  have same: "localStorage ((saveAnimationsToStorage demo_env demo_json demo_world)\<lparr>animations := []\<rparr>)
      = localStorage (saveAnimationsToStorage demo_env demo_json demo_world)"
    by simp
  from save_then_load_restores_registry [OF ser acc same]
  have "animations (loadAnimationsFromStorage demo_env demo_json
        ((saveAnimationsToStorage demo_env demo_json demo_world)\<lparr>animations := []\<rparr>))
       = animations demo_world" by simp
  then show ?thesis using ser acc by (simp add: demo_world_def)
qed

section \<open>The playback engine\<close>





lemma normalized_wellformed:
  "wellformed (normalizeCoord pt) \<Longrightarrow> wellformed (normalizeCoord (normalizeCoord pt))"
  by (simp add: normalizeCoord_idem)











end
